theory Spec2Isabelle
  imports Complex_Main "HOL-Library.Multiset" "HOL-Library.AList"
begin

section \<open>Conventions of the embedding\<close>

text \<open>
  The development embeds the data pipeline (\<^verbatim>\<open>src/data/preprocessing.py\<close>), the
  configuration tables (\<^verbatim>\<open>src/config.py\<close>) and the ensemble predictor
  (\<^verbatim>\<open>src/models/ensemble.py\<close>).

  Numbers are exact: a NumPy float is a \<^typ>\<open>real\<close>, and the rounding of
  double-precision arithmetic is not modelled; the cast to single precision in
  \<^verbatim>\<open>scale_features\<close> is a parameter. A result that NumPy reports as
  NaN or infinity, because a division by zero produced it, is a value of its own.
  A raised exception is the left injection of a sum type.
\<close>

datatype py_error = KeyError | IndexError | ValueError | ZeroDivisionError | NotFittedError

type_synonym matrix = "real list list"

section \<open>Configuration tables (config.py)\<close>

definition FEATURE_COLUMNS :: "string list" where
  "FEATURE_COLUMNS =
     [''BirthWeight'', ''FamilyHistory'', ''PretermBirth'', ''HeartRate'',
      ''BreathingDifficulty'', ''SkinTinge'', ''Responsiveness'', ''Movement'',
      ''DeliveryType'', ''MothersBPHistory'']"

definition TARGET_COLUMN :: string where
  "TARGET_COLUMN = ''CardiacArrestChance''"

definition NUM_FEATURES :: nat where
  "NUM_FEATURES = length FEATURE_COLUMNS"

definition NUM_CLASSES :: nat where
  "NUM_CLASSES = 3"

text \<open>A Python dict literal keeps its insertion order, which the encoding loop follows:
  the tables are association lists.\<close>

definition CATEGORY_MAPS :: "(string \<times> (string \<times> int) list) list" where
  "CATEGORY_MAPS =
     [(''BirthWeight'', [(''WeightTooLow'', 3), (''LowWeight'', 2), (''NormalWeight'', 1)]),
      (''FamilyHistory'', [(''AboveTwoCases'', 3), (''ZeroToTwoCases'', 2), (''NoCases'', 1)]),
      (''PretermBirth'',
         [(''4orMoreWeeksEarlier'', 3), (''2To4weeksEarlier'', 2), (''NotaPreTerm'', 1)]),
      (''HeartRate'', [(''RapidHeartRate'', 3), (''HighHeartRate'', 2), (''NormalHeartRate'', 1)]),
      (''BreathingDifficulty'',
         [(''HighBreathingDifficulty'', 3), (''BreathingDifficulty'', 2),
          (''NoBreathingDifficulty'', 1)]),
      (''SkinTinge'', [(''Bluish'', 3), (''LightBluish'', 2), (''NotBluish'', 1)]),
      (''Responsiveness'', [(''UnResponsive'', 3), (''SemiResponsive'', 2), (''Responsive'', 1)]),
      (''Movement'', [(''Diminished'', 3), (''Decreased'', 2), (''NormalMovement'', 1)]),
      (''DeliveryType'', [(''C_Section'', 3), (''DifficultDelivery'', 2), (''NormalDelivery'', 1)]),
      (''MothersBPHistory'', [(''VeryHighBP'', 3), (''HighBP'', 2), (''BPInRange'', 1)])]"

definition TARGET_MAP :: "(string \<times> int) list" where
  "TARGET_MAP = [(''High'', 2), (''Medium'', 1), (''Low'', 0)]"

section \<open>Data frames\<close>

text \<open>
  A cell of a frame read from the CSV file is a string, a number, or the missing value.
  A frame is its row index and its named columns, in order; every column is as long as
  the index.
\<close>

datatype cell = Str string | Num int | NaN

record dataframe =
  index :: "nat list"
  data :: "(string \<times> cell list) list"

definition get_col :: "dataframe \<Rightarrow> string \<Rightarrow> py_error + cell list" where
  \<comment> \<open>\<^verbatim>\<open>df[col]\<close>: a column that the frame does not have raises KeyError.\<close>
  "get_col df col = (case map_of (data df) col of None \<Rightarrow> Inl KeyError | Some vs \<Rightarrow> Inr vs)"

definition set_col :: "dataframe \<Rightarrow> string \<Rightarrow> cell list \<Rightarrow> dataframe" where
  \<comment> \<open>\<^verbatim>\<open>df[col] = series\<close>: replaces the column in place, or appends a new one.\<close>
  "set_col df col vs = df\<lparr>data := AList.update col vs (data df)\<rparr>"

definition series_map :: "(string \<times> int) list \<Rightarrow> cell list \<Rightarrow> cell list" where
  \<comment> \<open>\<^verbatim>\<open>Series.map(mapping)\<close> with a dict: a value that is not a key becomes NaN.\<close>
  "series_map mapping vs =
     map (\<lambda>v. case v of
                 Str s \<Rightarrow> (case map_of mapping s of Some k \<Rightarrow> Num k | None \<Rightarrow> NaN)
               | Num i \<Rightarrow> NaN
               | NaN \<Rightarrow> NaN) vs"

section \<open>DataPipeline.load_and_encode\<close>

fun encode_columns ::
  "(string \<times> (string \<times> int) list) list \<Rightarrow> dataframe \<Rightarrow> py_error + dataframe" where
  \<comment> \<open>\<^verbatim>\<open>for col, mapping in CATEGORY_MAPS.items(): df[col] = df[col].map(mapping)\<close>\<close>
  "encode_columns [] df = Inr df"
| "encode_columns ((col, mapping) # rest) df =
     (case get_col df col of
        Inl e \<Rightarrow> Inl e
      | Inr s \<Rightarrow> encode_columns rest (set_col df col (series_map mapping s)))"

definition load_and_encode :: "dataframe \<Rightarrow> py_error + dataframe \<times> dataframe" where
  \<comment> \<open>The argument is the frame that \<^verbatim>\<open>pd.read_csv(self.csv_path)\<close> returns.\<close>
  "load_and_encode df_raw =
     (case encode_columns CATEGORY_MAPS df_raw of
        Inl e \<Rightarrow> Inl e
      | Inr df_encoded \<Rightarrow>
          (case get_col df_encoded TARGET_COLUMN of
             Inl e \<Rightarrow> Inl e
           | Inr s \<Rightarrow> Inr (df_raw, set_col df_encoded TARGET_COLUMN (series_map TARGET_MAP s))))"

section \<open>DataPipeline.stratified_split\<close>

text \<open>
  \<^verbatim>\<open>train_test_split\<close> is scikit-learn's; what it draws is a parameter of the
  model. \<open>RandomState seed\<close> is the generator seeded with an integer (or the ValueError
  for a seed outside the accepted range), and \<open>shuffle_split rng n test_size y\<close> is
  the stratified draw for \<open>n\<close> samples with labels \<open>y\<close>: the positions of the train
  rows and of the test rows (or the ValueError of an impossible stratification),
  together with the advanced generator. The generator type \<open>'g\<close> is arbitrary.
  With \<^verbatim>\<open>random_state=None\<close> scikit-learn draws from the process-wide generator and
  advances it; with an integer it seeds a private one.
\<close>

record 'g sklearn =
  RandomState :: "int \<Rightarrow> py_error + 'g"
  shuffle_split :: "'g \<Rightarrow> nat \<Rightarrow> real \<Rightarrow> cell list \<Rightarrow> (py_error + nat list \<times> nat list) \<times> 'g"

definition take_rows :: "dataframe \<Rightarrow> nat list \<Rightarrow> dataframe" where
  \<comment> \<open>\<^verbatim>\<open>df.iloc[positions]\<close>: the rows at these positions, index labels kept.\<close>
  "take_rows df positions =
     \<lparr>index = map (nth (index df)) positions,
      data = map (\<lambda>(c, vs). (c, map (nth vs) positions)) (data df)\<rparr>"

definition select_rows ::
  "dataframe \<Rightarrow> py_error + nat list \<times> nat list \<Rightarrow> py_error + dataframe \<times> dataframe" where
  "select_rows df r =
     (case r of
        Inl e \<Rightarrow> Inl e
      | Inr (train, test) \<Rightarrow> Inr (take_rows df train, take_rows df test))"

definition train_test_split ::
  "'g sklearn \<Rightarrow> dataframe \<Rightarrow> real \<Rightarrow> cell list \<Rightarrow> int option \<Rightarrow> 'g
     \<Rightarrow> (py_error + dataframe \<times> dataframe) \<times> 'g" where
  "train_test_split lib df test_size stratify random_state global_rng =
     (case random_state of
        None \<Rightarrow>
          (case shuffle_split lib global_rng (length (index df)) test_size stratify of
             (r, global_rng') \<Rightarrow> (select_rows df r, global_rng'))
      | Some seed \<Rightarrow>
          (case RandomState lib seed of
             Inl e \<Rightarrow> (Inl e, global_rng)
           | Inr rng \<Rightarrow>
               (select_rows df
                  (fst (shuffle_split lib rng (length (index df)) test_size stratify)),
                global_rng)))"

definition stratified_split ::
  "'g sklearn \<Rightarrow> dataframe \<Rightarrow> real \<Rightarrow> real \<Rightarrow> int \<Rightarrow> 'g
     \<Rightarrow> (py_error + dataframe \<times> dataframe \<times> dataframe) \<times> 'g" where
  "stratified_split lib df_encoded test_size val_size seed global_rng =
     (case get_col df_encoded TARGET_COLUMN of
        Inl e \<Rightarrow> (Inl e, global_rng)
      | Inr y \<Rightarrow>
         (case train_test_split lib df_encoded test_size y (Some seed) global_rng of
            (Inl e, g1) \<Rightarrow> (Inl e, g1)
          | (Inr (train_val_df, test_df), g1) \<Rightarrow>
             (case get_col train_val_df TARGET_COLUMN of
                Inl e \<Rightarrow> (Inl e, g1)
              | Inr y_train_val \<Rightarrow>
                 if 1 - test_size = 0 then (Inl ZeroDivisionError, g1)
                 else
                   (let relative_val_size = val_size / (1 - test_size) in
                    case train_test_split lib train_val_df relative_val_size y_train_val
                           (Some seed) g1 of
                      (Inl e, g2) \<Rightarrow> (Inl e, g2)
                    | (Inr (train_df, val_df), g2) \<Rightarrow>
                        (Inr (train_df, val_df, test_df), g2)))))"

text \<open>The records of a frame: each row with its index label and its named cells.\<close>

definition row_at :: "dataframe \<Rightarrow> nat \<Rightarrow> nat \<times> (string \<times> cell) list" where
  "row_at df i = (index df ! i, map (\<lambda>(c, vs). (c, vs ! i)) (data df))"

definition records :: "dataframe \<Rightarrow> (nat \<times> (string \<times> cell) list) list" where
  "records df = map (row_at df) [0..<length (index df)]"

text \<open>What scikit-learn documents of a split: the train and the test positions together
  are the positions \<open>0, ..., n - 1\<close>, each once.\<close>

definition splits_positions :: "'g sklearn \<Rightarrow> bool" where
  "splits_positions lib =
     (\<forall>g n ts y tr te g'.
        shuffle_split lib g n ts y = (Inr (tr, te), g') \<longrightarrow> mset (tr @ te) = mset [0..<n])"

section \<open>DataPipeline.scale_features\<close>

text \<open>
  \<^verbatim>\<open>StandardScaler\<close> is scikit-learn's: \<^verbatim>\<open>fit\<close> stores the column means
  (\<^verbatim>\<open>mean_\<close>) and the column standard deviations (\<^verbatim>\<open>scale_\<close>; population
  variance; a zero deviation is replaced by 1),
  \<^verbatim>\<open>transform\<close> subtracts the mean and divides by the deviation, and reads the
  fitted state without changing it. A scaler that was never fitted is \<open>None\<close>.

  \<^verbatim>\<open>scale_features\<close> casts each scaled matrix to single precision. How NumPy rounds
  is not modelled: the rounding \<open>float32\<close>, from a double-precision entry to the
  single-precision number that stands for it, is a parameter of the model.
\<close>

record scaler_params =
  scaler_mean :: "real list"
  scaler_scale :: "real list"

type_synonym StandardScaler = "scaler_params option"

definition column :: "matrix \<Rightarrow> nat \<Rightarrow> real list" where
  "column X j = map (\<lambda>r. r ! j) X"

definition fit :: "matrix \<Rightarrow> py_error + scaler_params" where
  "fit X =
     (if X = [] \<or> hd X = [] \<or> \<not> list_all (\<lambda>r. length r = length (hd X)) X then Inl ValueError
      else
        (let n = real (length X);
             means = map (\<lambda>j. sum_list (column X j) / n) [0..<length (hd X)];
             vars = map (\<lambda>j. sum_list (map (\<lambda>x. (x - means ! j)\<^sup>2) (column X j)) / n)
                      [0..<length (hd X)]
         in Inr \<lparr>scaler_mean = means, scaler_scale = map (\<lambda>v. if v = 0 then 1 else sqrt v) vars\<rparr>))"

definition transform :: "StandardScaler \<Rightarrow> matrix \<Rightarrow> py_error + matrix" where
  "transform scaler X =
     (case scaler of
        None \<Rightarrow> Inl NotFittedError
      | Some p \<Rightarrow>
          if X = [] \<or> \<not> list_all (\<lambda>r. length r = length (scaler_mean p)) X then Inl ValueError
          else Inr (map (\<lambda>r. map (\<lambda>(x, m, s). (x - m) / s) (zip r (zip (scaler_mean p) (scaler_scale p)))) X))"

definition fit_transform :: "StandardScaler \<Rightarrow> matrix \<Rightarrow> (py_error + matrix) \<times> StandardScaler" where
  \<comment> \<open>A failed fit leaves the scaler reset, that is, not fitted.\<close>
  "fit_transform scaler X =
     (case fit X of
        Inl e \<Rightarrow> (Inl e, None)
      | Inr p \<Rightarrow> (transform (Some p) X, Some p))"

definition astype :: "(real \<Rightarrow> real) \<Rightarrow> matrix \<Rightarrow> matrix" where
  \<comment> \<open>\<^verbatim>\<open>X.astype(np.float32)\<close>, entry by entry, for the rounding \<open>float32\<close>.\<close>
  "astype float32 X = map (map float32) X"

definition scale_features ::
  "(real \<Rightarrow> real) \<Rightarrow> StandardScaler \<Rightarrow> matrix \<Rightarrow> matrix \<Rightarrow> matrix
     \<Rightarrow> (py_error + matrix \<times> matrix \<times> matrix) \<times> StandardScaler" where
  \<comment> \<open>The second argument is \<^verbatim>\<open>self.scaler\<close>, returned as the call leaves it.\<close>
  "scale_features float32 scaler X_train X_val X_test =
     (case fit_transform scaler X_train of
        (Inl e, scaler1) \<Rightarrow> (Inl e, scaler1)
      | (Inr train_scaled, scaler1) \<Rightarrow>
          (let X_train_scaled = astype float32 train_scaled in
           case transform scaler1 X_val of
             Inl e \<Rightarrow> (Inl e, scaler1)
           | Inr val_scaled \<Rightarrow>
               (let X_val_scaled = astype float32 val_scaled in
                case transform scaler1 X_test of
                  Inl e \<Rightarrow> (Inl e, scaler1)
                | Inr test_scaled \<Rightarrow>
                    (let X_test_scaled = astype float32 test_scaled in
                     (Inr (X_train_scaled, X_val_scaled, X_test_scaled), scaler1)))))"

section \<open>EnsemblePredictor\<close>

text \<open>
  A trained Keras model is the function that \<^verbatim>\<open>model.predict\<close> computes, from the
  input in the format the member takes to one row of class probabilities per input row.
  The three formats are the scaled feature matrix, the list of integer feature columns
  of EmbeddingNet, and the pair of named inputs of BERTFusion.
\<close>

datatype model_input =
    Tabular matrix
  | Embedded "int list list"
  | Fused matrix matrix

type_synonym keras_model = "model_input \<Rightarrow> matrix"

record ensemble =
  trained_models :: "keras_model list"
  model_names :: "string list"
  individual_aucs :: "real list"

definition init :: ensemble where
  \<comment> \<open>\<^verbatim>\<open>EnsemblePredictor.__init__\<close>\<close>
  "init = \<lparr>trained_models = [], model_names = [], individual_aucs = []\<rparr>"

subsection \<open>The registry (architectures.py)\<close>

text \<open>The builders are listed by their function names (\<^verbatim>\<open>builder.__name__\<close>).\<close>

definition TABULAR_MODEL_BUILDERS :: "string list" where
  "TABULAR_MODEL_BUILDERS =
     [''build_shallow_wide'', ''build_deep_narrow'', ''build_pyramid_bn'',
      ''build_diamond_selu'', ''build_residual_block'', ''build_swish_layernorm'',
      ''build_mixed_activation'', ''build_heavy_regularization'', ''build_attention_net'',
      ''build_very_deep'']"

definition EMBEDDING_MODEL_BUILDER :: string where
  "EMBEDDING_MODEL_BUILDER = ''build_embedding_net''"

definition BERT_FUSION_MODEL_BUILDER :: string where
  "BERT_FUSION_MODEL_BUILDER = ''build_bert_fusion''"

definition ALL_MODEL_NAMES :: "string list" where
  "ALL_MODEL_NAMES =
     [''ShallowWide'', ''DeepNarrow'', ''PyramidBN'', ''DiamondSELU'',
      ''ResidualBlock'', ''SwishLayerNorm'', ''MixedActivation'',
      ''HeavyRegularization'', ''AttentionNet'', ''VeryDeep'',
      ''EmbeddingNet'', ''BERTFusion'']"

subsection \<open>Helpers\<close>

definition astype_int32 :: "real \<Rightarrow> int" where
  \<comment> \<open>The cast truncates towards zero; a value beyond 32 bits gives the least 32-bit
      integer, as the conversion does on x86-64.\<close>
  "astype_int32 x =
     (let t = (if 0 \<le> x then \<lfloor>x\<rfloor> else \<lceil>x\<rceil>)
      in if - (2 ^ 31) \<le> t \<and> t < 2 ^ 31 then t else - (2 ^ 31))"

definition split_for_embedding :: "matrix \<Rightarrow> py_error + int list list" where
  \<comment> \<open>\<^verbatim>\<open>[X[:, i].astype(np.int32) for i in range(NUM_FEATURES)]\<close>: a matrix with fewer
      columns raises IndexError.\<close>
  "split_for_embedding X =
     (if list_all (\<lambda>r. NUM_FEATURES \<le> length r) X
      then Inr (map (\<lambda>i. map (\<lambda>r. astype_int32 (r ! i)) X) [0..<NUM_FEATURES])
      else Inl IndexError)"

function str_replace :: "string \<Rightarrow> string \<Rightarrow> string \<Rightarrow> string" where
  \<comment> \<open>\<^verbatim>\<open>s.replace(old, new)\<close> for a non-empty \<open>old\<close>: every occurrence, left to right.\<close>
  "str_replace old new s =
     (if s = [] \<or> old = [] then s
      else if take (length old) s = old then new @ str_replace old new (drop (length old) s)
      else hd s # str_replace old new (tl s))"
  by pat_completeness auto
termination
  by (relation "measure (\<lambda>(old, new, s). length s)") auto

declare str_replace.simps [simp del]

subsection \<open>train_all\<close>

text \<open>
  Building, fitting and scoring a member is TensorFlow's and scikit-learn's work: the
  parameter \<open>fit_and_score builder train_inputs val_inputs\<close> is the fitted model
  together with its validation AUC; that fitting or scoring raises is not modelled. The
  labels only reach these library calls and are left out. The optional arguments are
  \<open>None\<close> when the caller leaves them out.
\<close>

type_synonym trainer = "string \<Rightarrow> model_input \<Rightarrow> model_input \<Rightarrow> keras_model \<times> real"

definition append_member :: "ensemble \<Rightarrow> keras_model \<Rightarrow> string \<Rightarrow> real \<Rightarrow> ensemble" where
  "append_member self model name auc =
     self\<lparr>trained_models := trained_models self @ [model],
          model_names := model_names self @ [name],
          individual_aucs := individual_aucs self @ [auc]\<rparr>"

fun train_tabular :: "trainer \<Rightarrow> matrix \<Rightarrow> matrix \<Rightarrow> string list \<Rightarrow> ensemble \<Rightarrow> ensemble" where
  \<comment> \<open>\<^verbatim>\<open>for i, builder in enumerate(TABULAR_MODEL_BUILDERS): ...\<close>\<close>
  "train_tabular fit_and_score X_train X_val [] self = self"
| "train_tabular fit_and_score X_train X_val (builder # rest) self =
     (let name = str_replace ''build_'' [] builder;
          (model, auc) = fit_and_score builder (Tabular X_train) (Tabular X_val)
      in train_tabular fit_and_score X_train X_val rest (append_member self model name auc))"

definition train_embedding ::
  "trainer \<Rightarrow> matrix option \<Rightarrow> matrix option \<Rightarrow> ensemble \<Rightarrow> py_error + ensemble" where
  "train_embedding fit_and_score X_train_raw X_val_raw self =
     (case (X_train_raw, X_val_raw) of
        (Some train_raw, Some val_raw) \<Rightarrow>
          (case split_for_embedding train_raw of
             Inl e \<Rightarrow> Inl e
           | Inr X_train_emb \<Rightarrow>
               (case split_for_embedding val_raw of
                  Inl e \<Rightarrow> Inl e
                | Inr X_val_emb \<Rightarrow>
                    (let (emb_model, auc) =
                           fit_and_score EMBEDDING_MODEL_BUILDER (Embedded X_train_emb)
                             (Embedded X_val_emb)
                     in Inr (append_member self emb_model ''EmbeddingNet'' auc))))
      | _ \<Rightarrow> Inr self)"

definition train_fusion ::
  "trainer \<Rightarrow> matrix \<Rightarrow> matrix \<Rightarrow> matrix option \<Rightarrow> matrix option \<Rightarrow> ensemble \<Rightarrow> ensemble" where
  "train_fusion fit_and_score X_train X_val bert_train bert_val self =
     (case (bert_train, bert_val) of
        (Some bt, Some bv) \<Rightarrow>
          (let (fusion_model, auc) =
                 fit_and_score BERT_FUSION_MODEL_BUILDER (Fused X_train bt) (Fused X_val bv)
           in append_member self fusion_model ''BERTFusion'' auc)
      | _ \<Rightarrow> self)"

definition train_all ::
  "trainer \<Rightarrow> ensemble \<Rightarrow> matrix \<Rightarrow> matrix \<Rightarrow> matrix option \<Rightarrow> matrix option
     \<Rightarrow> matrix option \<Rightarrow> matrix option \<Rightarrow> py_error + ensemble" where
  "train_all fit_and_score self X_train X_val X_train_raw X_val_raw bert_train bert_val =
     (case train_embedding fit_and_score X_train_raw X_val_raw
             (train_tabular fit_and_score X_train X_val TABULAR_MODEL_BUILDERS self) of
        Inl e \<Rightarrow> Inl e
      | Inr self' \<Rightarrow> Inr (train_fusion fit_and_score X_train X_val bert_train bert_val self'))"

subsection \<open>Prediction\<close>

fun collect ::
  "(keras_model \<times> string) list \<Rightarrow> matrix \<Rightarrow> matrix option \<Rightarrow> matrix option
     \<Rightarrow> py_error + matrix list" where
  \<comment> \<open>The loop of \<^verbatim>\<open>_collect_predictions\<close>; \<^verbatim>\<open>continue\<close> goes on with the rest.\<close>
  "collect [] X X_raw bert_embeddings = Inr []"
| "collect ((model, name) # rest) X X_raw bert_embeddings =
     (if name = ''EmbeddingNet'' then
        (case X_raw of
           Some raw \<Rightarrow>
             (case split_for_embedding raw of
                Inl e \<Rightarrow> Inl e
              | Inr X_emb \<Rightarrow>
                  (case collect rest X X_raw bert_embeddings of
                     Inl e \<Rightarrow> Inl e
                   | Inr all_probs \<Rightarrow> Inr (model (Embedded X_emb) # all_probs)))
         | None \<Rightarrow> collect rest X X_raw bert_embeddings)
      else if name = ''BERTFusion'' then
        (case bert_embeddings of
           Some b \<Rightarrow>
             (case collect rest X X_raw bert_embeddings of
                Inl e \<Rightarrow> Inl e
              | Inr all_probs \<Rightarrow> Inr (model (Fused X b) # all_probs))
         | None \<Rightarrow> collect rest X X_raw bert_embeddings)
      else
        (case collect rest X X_raw bert_embeddings of
           Inl e \<Rightarrow> Inl e
         | Inr all_probs \<Rightarrow> Inr (model (Tabular X) # all_probs)))"

definition collect_predictions ::
  "ensemble \<Rightarrow> matrix \<Rightarrow> matrix option \<Rightarrow> matrix option \<Rightarrow> py_error + matrix list" where
  "collect_predictions self X X_raw bert_embeddings =
     collect (zip (trained_models self) (model_names self)) X X_raw bert_embeddings"

text \<open>
  NumPy's reductions over the first axis of the stacked predictions. Stacking arrays of
  different shapes raises ValueError. The result is an array, or NaN: the scalar NaN of
  a mean over nothing, or the array filled with NaN that weights which are not finite
  produce (when the predictions have no entry at all, that array is the empty array).
\<close>

datatype ndarray = Array matrix | NotANumber

definition same_shape :: "matrix list \<Rightarrow> bool" where
  "same_shape ps = list_all (\<lambda>q. map length q = map length (hd ps)) ps"

definition madd :: "matrix \<Rightarrow> matrix \<Rightarrow> matrix" where
  "madd a b = map2 (map2 (+)) a b"

definition mscale :: "real \<Rightarrow> matrix \<Rightarrow> matrix" where
  "mscale w a = map (map ((*) w)) a"

definition mdiv :: "matrix \<Rightarrow> real \<Rightarrow> matrix" where
  "mdiv a d = map (map (\<lambda>x. x / d)) a"

fun msum :: "matrix list \<Rightarrow> matrix" where
  "msum [] = []"
| "msum [p] = p"
| "msum (p # q # ps) = madd p (msum (q # ps))"

definition np_mean :: "matrix list \<Rightarrow> py_error + ndarray" where
  \<comment> \<open>\<^verbatim>\<open>np.mean(all_probs, axis=0)\<close>\<close>
  "np_mean all_probs =
     (if all_probs = [] then Inr NotANumber
      else if \<not> same_shape all_probs then Inl ValueError
      else Inr (Array (mdiv (msum all_probs) (real (length all_probs)))))"

definition np_divide :: "real list \<Rightarrow> real \<Rightarrow> real option list" where
  \<comment> \<open>\<^verbatim>\<open>weights / weights.sum()\<close>: dividing by zero gives NaN or an infinity, here
      \<open>None\<close>, and raises nothing.\<close>
  "np_divide ws s = map (\<lambda>w. if s = 0 then None else Some (w / s)) ws"

definition np_average :: "matrix list \<Rightarrow> real option list \<Rightarrow> py_error + ndarray" where
  \<comment> \<open>\<^verbatim>\<open>np.average(all_probs, axis=0, weights=weights)\<close>\<close>
  "np_average all_probs weights =
     (if \<not> same_shape all_probs then Inl ValueError
      else if length weights \<noteq> length all_probs then Inl ValueError
      else if None \<in> set weights then
        Inr (if concat (hd all_probs) = [] then Array (hd all_probs) else NotANumber)
      else
        (let wgt = map the weights; scl = sum_list wgt in
         if scl = 0 then Inl ZeroDivisionError
         else Inr (Array (mdiv (msum (map2 mscale wgt all_probs)) scl))))"

definition predict_ensemble ::
  "ensemble \<Rightarrow> matrix \<Rightarrow> matrix option \<Rightarrow> matrix option \<Rightarrow> py_error + ndarray" where
  "predict_ensemble self X X_raw bert_embeddings =
     (case collect_predictions self X X_raw bert_embeddings of
        Inl e \<Rightarrow> Inl e
      | Inr all_probs \<Rightarrow> np_mean all_probs)"

definition predict_weighted_ensemble ::
  "ensemble \<Rightarrow> matrix \<Rightarrow> matrix option \<Rightarrow> matrix option \<Rightarrow> py_error + ndarray" where
  "predict_weighted_ensemble self X X_raw bert_embeddings =
     (case collect_predictions self X X_raw bert_embeddings of
        Inl e \<Rightarrow> Inl e
      | Inr all_probs \<Rightarrow>
          (let weights = take (length all_probs) (individual_aucs self);
               weights = np_divide weights (sum_list weights)
           in np_average all_probs weights))"

subsection \<open>save_all and load_all\<close>

text \<open>
  The ensemble directory on disk: the saved model found under each path that exists
  (every such path was written by \<^verbatim>\<open>model.save\<close>), and the content of
  \<^verbatim>\<open>individual_aucs.npy\<close> if the file exists.
\<close>

record directory =
  saved :: "string \<rightharpoonup> keras_model"
  aucs_npy :: "real list option"

definition empty_directory :: directory where
  "empty_directory = \<lparr>saved = Map.empty, aucs_npy = None\<rparr>"

fun save_models :: "(keras_model \<times> string) list \<Rightarrow> (string \<rightharpoonup> keras_model) \<Rightarrow> (string \<rightharpoonup> keras_model)" where
  "save_models [] files = files"
| "save_models ((model, name) # rest) files = save_models rest (files(name \<mapsto> model))"

definition save_all :: "ensemble \<Rightarrow> directory \<Rightarrow> directory" where
  "save_all self dir =
     \<lparr>saved = save_models (zip (trained_models self) (model_names self)) (saved dir),
      aucs_npy = Some (individual_aucs self)\<rparr>"

fun load_models :: "string list \<Rightarrow> (string \<rightharpoonup> keras_model) \<Rightarrow> (keras_model \<times> string) list" where
  \<comment> \<open>\<^verbatim>\<open>for name in ALL_MODEL_NAMES: if os.path.exists(path): ...\<close>\<close>
  "load_models [] files = []"
| "load_models (name # rest) files =
     (case files name of
        Some model \<Rightarrow> (model, name) # load_models rest files
      | None \<Rightarrow> load_models rest files)"

definition load_all :: "ensemble \<Rightarrow> directory \<Rightarrow> ensemble" where
  "load_all self dir =
     (let loaded = load_models ALL_MODEL_NAMES (saved dir) in
      \<lparr>trained_models = map fst loaded,
       model_names = map snd loaded,
       individual_aucs =
         (case aucs_npy dir of Some aucs \<Rightarrow> aucs | None \<Rightarrow> individual_aucs self)\<rparr>)"

section \<open>Notions of the specification\<close>



section \<open>Concrete inputs\<close>

definition example_frame :: dataframe where
  "example_frame =
     \<lparr>index = [0, 1],
      data =
        [(''BirthWeight'', [Str ''WeightTooLow'', Str ''Heavy'']),
         (''FamilyHistory'', [Str ''NoCases'', Str ''AboveTwoCases'']),
         (''PretermBirth'', [Str ''NotaPreTerm'', Str ''2To4weeksEarlier'']),
         (''HeartRate'', [Str ''NormalHeartRate'', Str ''RapidHeartRate'']),
         (''BreathingDifficulty'', [Str ''NoBreathingDifficulty'', Str ''BreathingDifficulty'']),
         (''SkinTinge'', [Str ''NotBluish'', Str ''Bluish'']),
         (''Responsiveness'', [Str ''Responsive'', Str ''UnResponsive'']),
         (''Movement'', [Str ''NormalMovement'', Str ''Decreased'']),
         (''DeliveryType'', [Str ''NormalDelivery'', Str ''C_Section'']),
         (''MothersBPHistory'', [Str ''BPInRange'', Str ''HighBP'']),
         (''CardiacArrestChance'', [Str ''Low'', Str ''High''])]\<rparr>"

definition constant_model :: "real list \<Rightarrow> keras_model" where
  "constant_model row = (\<lambda>inp. [row])"

definition stale_self :: ensemble where
  "stale_self =
     \<lparr>trained_models = [constant_model [0.6, 0.3, 0.1], constant_model [0.2, 0.5, 0.3]],
      model_names = [''ShallowWide'', ''DeepNarrow''],
      individual_aucs = [0.9, 0.7]\<rparr>"

definition embedding_only_directory :: directory where
  "embedding_only_directory =
     \<lparr>saved = [''EmbeddingNet'' \<mapsto> constant_model [0.1, 0.1, 0.8]], aucs_npy = None\<rparr>"

definition example_trainer :: trainer where
  "example_trainer builder train_inputs val_inputs = (constant_model [0.6, 0.3, 0.1], 0.9)"

definition example_features :: matrix where
  "example_features = [[1, 2, 3, 1, 2, 3, 1, 2, 3, 1]]"

definition example_bert :: matrix where
  "example_bert = [[0.5, 0.25]]"

text \<open>
  The cast to float32 on the scaler examples: every entry of their matrices, before and
  after scaling, is an integer below \<open>2\<^sup>2\<^sup>4\<close> in magnitude, which single precision
  holds exactly.
\<close>

definition small_integer_cast :: "real \<Rightarrow> real" where
  "small_integer_cast x = x"

definition scaler_train :: matrix where "scaler_train = [[1, 10], [3, 10]]"
definition scaler_val :: matrix where "scaler_val = [[2, 12]]"
definition scaler_test :: matrix where "scaler_test = [[5, 9]]"

definition tail_split :: "int sklearn" where
  "tail_split =
     \<lparr>RandomState = (\<lambda>seed. if 0 \<le> seed \<and> seed < 2 ^ 32 then Inr seed else Inl ValueError),
      shuffle_split =
        (\<lambda>rng n test_size y.
           (let n_test = nat \<lceil>test_size * real n\<rceil> in
            if n_test = 0 \<or> n \<le> n_test then Inl ValueError
            else Inr ([0..<n - n_test], [n - n_test..<n]),
            rng + 1))\<rparr>"

definition four_records :: dataframe where
  "four_records =
     \<lparr>index = [0, 1, 2, 3],
      data = [(''BirthWeight'', [Num 3, Num 1, Num 2, Num 1]),
              (''CardiacArrestChance'', [Num 2, Num 0, Num 2, Num 0])]\<rparr>"

definition two_members :: ensemble where
  "two_members =
     \<lparr>trained_models = [constant_model [0.6, 0.3, 0.1], constant_model [0.2, 0.5, 0.3]],
      model_names = [''shallow_wide'', ''deep_narrow''],
      individual_aucs = [0.9, 0.7]\<rparr>"

definition zero_weight_members :: ensemble where
  "zero_weight_members =
     \<lparr>trained_models = [constant_model [0.6, 0.3, 0.1], constant_model [0.2, 0.5, 0.3]],
      model_names = [''shallow_wide'', ''deep_narrow''],
      individual_aucs = [0, 0]\<rparr>"

definition embedding_only :: ensemble where
  "embedding_only =
     \<lparr>trained_models = [constant_model [0.1, 0.1, 0.8]],
      model_names = [''EmbeddingNet''],
      individual_aucs = [0.8]\<rparr>"

definition tabular_and_embedding :: ensemble where
  "tabular_and_embedding =
     \<lparr>trained_models = [constant_model [0.6, 0.3, 0.1], constant_model [0.1, 0.1, 0.8]],
      model_names = [''shallow_wide'', ''EmbeddingNet''],
      individual_aucs = [0.9, 0.8]\<rparr>"

definition equal_weight_members :: ensemble where
  "equal_weight_members =
     \<lparr>trained_models = [constant_model [0.6, 0.3, 0.1], constant_model [0.2, 0.5, 0.3]],
      model_names = [''shallow_wide'', ''deep_narrow''],
      individual_aucs = [0.8, 0.8]\<rparr>"

definition tabular_only :: ensemble where
  "tabular_only =
     \<lparr>trained_models = [constant_model [0.6, 0.3, 0.1]],
      model_names = [''shallow_wide''],
      individual_aucs = [0.9]\<rparr>"




section \<open>Verified properties\<close>

subsection \<open>C7: load_and_encode follows the encoding table\<close>

lemma get_col_set_col:
  "get_col (set_col df c vs) c' = (if c' = c then Inr vs else get_col df c')"
  by (simp add: get_col_def set_col_def update_conv')

lemma index_set_col: "index (set_col df c vs) = index df"
  by (simp add: set_col_def)

lemma encode_columns_result:
  assumes "distinct (map fst maps)"
      and "\<forall>c \<in> set (map fst maps). map_of (data df) c \<noteq> None"
  shows "\<exists>enc. encode_columns maps df = Inr enc \<and> index enc = index df \<and>
           (\<forall>c. get_col enc c =
              (case map_of maps c of
                 None \<Rightarrow> get_col df c
               | Some mapping \<Rightarrow> map_sum id (series_map mapping) (get_col df c)))"
  using assms
proof (induction maps arbitrary: df)
  case Nil
  then show ?case by simp
next
  case (Cons a maps)
  obtain col mapping where a: "a = (col, mapping)" by (cases a)
  from Cons.prems a obtain s where s: "map_of (data df) col = Some s" by auto
  let ?df = "set_col df col (series_map mapping s)"
  have d: "distinct (map fst maps)" and notin: "col \<notin> fst ` set maps"
    using Cons.prems a by auto
  have pres: "\<forall>c \<in> set (map fst maps). map_of (data ?df) c \<noteq> None"
    using Cons.prems by (auto simp: set_col_def update_conv')
  from Cons.IH[OF d pres] obtain enc where
    enc: "encode_columns maps ?df = Inr enc" "index enc = index ?df"
      "\<forall>c. get_col enc c =
              (case map_of maps c of
                 None \<Rightarrow> get_col ?df c
               | Some mapping \<Rightarrow> map_sum id (series_map mapping) (get_col ?df c))"
    by blast
  have none: "map_of maps col = None"
    using notin by (simp add: map_of_eq_None_iff)
  have "encode_columns (a # maps) df = Inr enc"
    using a s enc(1) by (simp add: get_col_def)
  moreover have "index enc = index df"
    using enc(2) by (simp add: index_set_col)
  moreover have "get_col enc c =
              (case map_of (a # maps) c of
                 None \<Rightarrow> get_col df c
               | Some mapping \<Rightarrow> map_sum id (series_map mapping) (get_col df c))" for c
  proof (cases "c = col")
    case True
    then show ?thesis using enc(3) none a s
      by (simp add: get_col_set_col) (simp add: get_col_def)
  next
    case False
    then show ?thesis using enc(3) a
      by (simp add: get_col_set_col split: option.splits)
  qed
  ultimately show ?case by blast
qed

lemma distinct_CATEGORY_MAPS: "distinct (map fst CATEGORY_MAPS)"
  by (simp add: CATEGORY_MAPS_def)

lemma target_not_feature: "map_of CATEGORY_MAPS TARGET_COLUMN = None"
  by (simp add: CATEGORY_MAPS_def TARGET_COLUMN_def)


lemma series_map_nth:
  "i < length vs \<Longrightarrow>
   series_map mapping vs ! i =
     (case vs ! i of
        Str s \<Rightarrow> (case map_of mapping s of Some k \<Rightarrow> Num k | None \<Rightarrow> NaN)
      | Num n \<Rightarrow> NaN
      | NaN \<Rightarrow> NaN)"
  by (simp add: series_map_def)

text \<open>
  Claim C7. On a frame that has the ten feature columns and the target column,
  \<^verbatim>\<open>load_and_encode\<close> returns the raw frame unchanged together with the encoded
  frame, in which every mapped column is the raw column sent through its table: a string
  that is a key of the table becomes the table's integer (in particular
  \<open>BirthWeight = WeightTooLow\<close> becomes 3 and \<open>CardiacArrestChance = Low\<close>
  becomes 0), and a value that is not a key becomes the missing value NaN, never an
  integer.
\<close>

theorem load_and_encode_table:
  assumes present: "\<forall>c \<in> set (TARGET_COLUMN # map fst CATEGORY_MAPS). map_of (data df_raw) c \<noteq> None"
  shows "\<exists>df_encoded.
           load_and_encode df_raw = Inr (df_raw, df_encoded) \<and>
           index df_encoded = index df_raw \<and>
           (\<forall>(col, mapping) \<in> set ((TARGET_COLUMN, TARGET_MAP) # CATEGORY_MAPS).
              \<exists>vs. get_col df_raw col = Inr vs \<and>
                   get_col df_encoded col = Inr (series_map mapping vs) \<and>
                   (\<forall>i < length vs.
                      (\<forall>s k. vs ! i = Str s \<and> map_of mapping s = Some k
                         \<longrightarrow> series_map mapping vs ! i = Num k) \<and>
                      ((\<forall>s. vs ! i = Str s \<longrightarrow> map_of mapping s = None)
                         \<longrightarrow> series_map mapping vs ! i = NaN) \<and>
                      (col = ''BirthWeight'' \<and> vs ! i = Str ''WeightTooLow''
                         \<longrightarrow> series_map mapping vs ! i = Num 3) \<and>
                      (col = ''CardiacArrestChance'' \<and> vs ! i = Str ''Low''
                         \<longrightarrow> series_map mapping vs ! i = Num 0)))"
proof -
  have pres: "\<forall>c \<in> set (map fst CATEGORY_MAPS). map_of (data df_raw) c \<noteq> None"
    using present by simp
  from encode_columns_result[OF distinct_CATEGORY_MAPS pres] obtain d where
    d: "encode_columns CATEGORY_MAPS df_raw = Inr d" "index d = index df_raw"
       "\<And>c. get_col d c =
              (case map_of CATEGORY_MAPS c of
                 None \<Rightarrow> get_col df_raw c
               | Some mapping \<Rightarrow> map_sum id (series_map mapping) (get_col df_raw c))"
    by blast
  from present obtain t where t: "map_of (data df_raw) TARGET_COLUMN = Some t" by auto
  have dt: "get_col d TARGET_COLUMN = Inr t"
    using d(3)[of TARGET_COLUMN] t by (simp add: target_not_feature get_col_def)
  let ?enc = "set_col d TARGET_COLUMN (series_map TARGET_MAP t)"
  have run: "load_and_encode df_raw = Inr (df_raw, ?enc)"
    using d(1) dt by (simp add: load_and_encode_def)
  have idx: "index ?enc = index df_raw"
    using d(2) by (simp add: index_set_col)
  have cols: "\<exists>vs. get_col df_raw col = Inr vs \<and>
                   get_col ?enc col = Inr (series_map mapping vs) \<and>
                   (\<forall>i < length vs.
                      (\<forall>s k. vs ! i = Str s \<and> map_of mapping s = Some k
                         \<longrightarrow> series_map mapping vs ! i = Num k) \<and>
                      ((\<forall>s. vs ! i = Str s \<longrightarrow> map_of mapping s = None)
                         \<longrightarrow> series_map mapping vs ! i = NaN) \<and>
                      (col = ''BirthWeight'' \<and> vs ! i = Str ''WeightTooLow''
                         \<longrightarrow> series_map mapping vs ! i = Num 3) \<and>
                      (col = ''CardiacArrestChance'' \<and> vs ! i = Str ''Low''
                         \<longrightarrow> series_map mapping vs ! i = Num 0))"
    if mem: "(col, mapping) \<in> set ((TARGET_COLUMN, TARGET_MAP) # CATEGORY_MAPS)"
    for col mapping
  proof -
    from mem present obtain vs where vs: "map_of (data df_raw) col = Some vs"
      by force
    have raw: "get_col df_raw col = Inr vs" using vs by (simp add: get_col_def)
    have enc: "get_col ?enc col = Inr (series_map mapping vs)"
    proof (cases "col = TARGET_COLUMN")
      case True
      with mem have "mapping = TARGET_MAP"
        using target_not_feature by (auto simp: map_of_eq_None_iff image_iff)
      with True t vs show ?thesis by (simp add: get_col_set_col)
    next
      case False
      with mem have "map_of CATEGORY_MAPS col = Some mapping"
        using distinct_CATEGORY_MAPS by simp
      with False raw show ?thesis using d(3)[of col] by (simp add: get_col_set_col)
    qed
    have bw: "mapping = [(''WeightTooLow'', 3), (''LowWeight'', 2), (''NormalWeight'', 1)]"
      if "col = ''BirthWeight''"
      using mem that by (simp add: CATEGORY_MAPS_def TARGET_COLUMN_def)
    have tg: "mapping = TARGET_MAP" if "col = ''CardiacArrestChance''"
      using mem that by (simp add: CATEGORY_MAPS_def TARGET_COLUMN_def)
    have cells: "(\<forall>s k. vs ! i = Str s \<and> map_of mapping s = Some k
                         \<longrightarrow> series_map mapping vs ! i = Num k) \<and>
                      ((\<forall>s. vs ! i = Str s \<longrightarrow> map_of mapping s = None)
                         \<longrightarrow> series_map mapping vs ! i = NaN) \<and>
                      (col = ''BirthWeight'' \<and> vs ! i = Str ''WeightTooLow''
                         \<longrightarrow> series_map mapping vs ! i = Num 3) \<and>
                      (col = ''CardiacArrestChance'' \<and> vs ! i = Str ''Low''
                         \<longrightarrow> series_map mapping vs ! i = Num 0)" if "i < length vs" for i
      using that bw tg by (auto simp: series_map_nth TARGET_MAP_def split: cell.splits option.splits)
    from raw enc cells show ?thesis by blast
  qed
  from run idx cols show ?thesis by blast
qed


theorem load_and_encode_table_witness:
  "\<exists>df_encoded.
     load_and_encode example_frame = Inr (example_frame, df_encoded) \<and>
     get_col df_encoded ''BirthWeight'' = Inr [Num 3, NaN] \<and>
     get_col df_encoded ''CardiacArrestChance'' = Inr [Num 0, Num 2]"
proof -
  have present:
    "\<forall>c \<in> set (TARGET_COLUMN # map fst CATEGORY_MAPS). map_of (data example_frame) c \<noteq> None"
    by (simp add: example_frame_def TARGET_COLUMN_def CATEGORY_MAPS_def)
  from load_and_encode_table[OF present] obtain enc where
    run: "load_and_encode example_frame = Inr (example_frame, enc)" and
    cols: "\<forall>(col, mapping) \<in> set ((TARGET_COLUMN, TARGET_MAP) # CATEGORY_MAPS).
              \<exists>vs. get_col example_frame col = Inr vs \<and>
                   get_col enc col = Inr (series_map mapping vs)"
    by fast
  have m1: "(''BirthWeight'', [(''WeightTooLow'', 3), (''LowWeight'', 2), (''NormalWeight'', 1)])
              \<in> set ((TARGET_COLUMN, TARGET_MAP) # CATEGORY_MAPS)"
    by (simp add: CATEGORY_MAPS_def)
  have m2: "(''CardiacArrestChance'', TARGET_MAP) \<in> set ((TARGET_COLUMN, TARGET_MAP) # CATEGORY_MAPS)"
    by (simp add: TARGET_COLUMN_def)
  have "get_col enc ''BirthWeight'' = Inr [Num 3, NaN]"
    using bspec[OF cols m1] by (simp add: get_col_def example_frame_def series_map_def)
  moreover have "get_col enc ''CardiacArrestChance'' = Inr [Num 0, Num 2]"
    using bspec[OF cols m2]
    by (simp add: get_col_def example_frame_def series_map_def TARGET_MAP_def)
  ultimately show ?thesis using run by blast
qed

subsection \<open>C10: what load_all writes and what it leaves\<close>

lemma load_models_filter:
  "load_models names files =
     map (\<lambda>name. (the (files name), name)) (filter (\<lambda>name. files name \<noteq> None) names)"
  by (induction names) (auto split: option.splits)

text \<open>
  Claim C10. For every predictor state and every directory, \<^verbatim>\<open>load_all\<close> sets
  the roster (models and names) to exactly the members of \<^verbatim>\<open>ALL_MODEL_NAMES\<close>
  found on disk, in that order, and leaves \<^verbatim>\<open>individual_aucs\<close> as it was before
  the call when \<^verbatim>\<open>individual_aucs.npy\<close> is absent; there are states and
  directories for which the score vector left in place has a length other than that of
  the reloaded roster.
\<close>

theorem load_all_frame:
  "model_names (load_all self dir) = filter (\<lambda>name. saved dir name \<noteq> None) ALL_MODEL_NAMES \<and>
   trained_models (load_all self dir) =
     map (\<lambda>name. the (saved dir name)) (filter (\<lambda>name. saved dir name \<noteq> None) ALL_MODEL_NAMES) \<and>
   (aucs_npy dir = None \<longrightarrow> individual_aucs (load_all self dir) = individual_aucs self) \<and>
   (\<exists>self' dir'. aucs_npy dir' = None \<and>
      length (individual_aucs (load_all self' dir')) \<noteq> length (model_names (load_all self' dir')))"
proof -
  have names: "model_names (load_all self dir) =
      filter (\<lambda>name. saved dir name \<noteq> None) ALL_MODEL_NAMES"
    by (simp add: load_all_def load_models_filter Let_def o_def)
  have models: "trained_models (load_all self dir) =
     map (\<lambda>name. the (saved dir name)) (filter (\<lambda>name. saved dir name \<noteq> None) ALL_MODEL_NAMES)"
    by (simp add: load_all_def load_models_filter Let_def o_def)
  have aucs: "aucs_npy dir = None \<longrightarrow> individual_aucs (load_all self dir) = individual_aucs self"
    by (simp add: load_all_def Let_def)
  let ?self = "\<lparr>trained_models = [], model_names = [], individual_aucs = [0.9]\<rparr>"
  have "aucs_npy empty_directory = None \<and>
      length (individual_aucs (load_all ?self empty_directory))
        \<noteq> length (model_names (load_all ?self empty_directory))"
    by (simp add: load_all_def Let_def empty_directory_def load_models_filter)
  then have stale: "\<exists>self' dir'. aucs_npy dir' = None \<and>
      length (individual_aucs (load_all self' dir')) \<noteq> length (model_names (load_all self' dir'))"
    by blast
  from names models aucs stale show ?thesis by blast
qed

theorem load_all_frame_witness:
  "aucs_npy embedding_only_directory = None \<and>
   model_names (load_all stale_self embedding_only_directory) = [''EmbeddingNet''] \<and>
   trained_models (load_all stale_self embedding_only_directory) =
     [constant_model [0.1, 0.1, 0.8]] \<and>
   individual_aucs (load_all stale_self embedding_only_directory) = [0.9, 0.7]"
proof -
  have none: "aucs_npy embedding_only_directory = None"
    by (simp add: embedding_only_directory_def)
  note frame = load_all_frame[of stale_self embedding_only_directory]
  have "model_names (load_all stale_self embedding_only_directory) = [''EmbeddingNet'']"
    using frame by (simp add: embedding_only_directory_def ALL_MODEL_NAMES_def)
  moreover have "trained_models (load_all stale_self embedding_only_directory) =
     [constant_model [0.1, 0.1, 0.8]]"
    using frame by (simp add: embedding_only_directory_def ALL_MODEL_NAMES_def)
  moreover have "individual_aucs (load_all stale_self embedding_only_directory) = [0.9, 0.7]"
    using frame none by (simp add: stale_self_def)
  ultimately show ?thesis using none by simp
qed


subsection \<open>C2: train_all, save_all, load_all\<close>

lemma replace_names:
  "map (str_replace ''build_'' []) TABULAR_MODEL_BUILDERS =
     [''shallow_wide'', ''deep_narrow'', ''pyramid_bn'', ''diamond_selu'', ''residual_block'',
      ''swish_layernorm'', ''mixed_activation'', ''heavy_regularization'', ''attention_net'',
      ''very_deep'']"
  unfolding TABULAR_MODEL_BUILDERS_def by (simp add: str_replace.simps)


lemma train_tabular_names:
  "model_names (train_tabular f Xt Xv builders self) =
     model_names self @ map (str_replace ''build_'' []) builders"
  by (induction builders arbitrary: self)
     (simp_all add: append_member_def Let_def split: prod.splits)

lemma train_tabular_aucs:
  "individual_aucs (train_tabular f Xt Xv builders self) =
     individual_aucs self @ map (\<lambda>b. snd (f b (Tabular Xt) (Tabular Xv))) builders"
  by (induction builders arbitrary: self)
     (simp_all add: append_member_def Let_def split: prod.splits)

lemma train_tabular_models:
  "trained_models (train_tabular f Xt Xv builders self) =
     trained_models self @ map (\<lambda>b. fst (f b (Tabular Xt) (Tabular Xv))) builders"
  by (induction builders arbitrary: self)
     (simp_all add: append_member_def Let_def split: prod.splits)

lemma split_example: "\<exists>cols. split_for_embedding example_features = Inr cols"
  by (simp add: split_for_embedding_def example_features_def NUM_FEATURES_def FEATURE_COLUMNS_def)

text \<open>
  Claim C2, evaluated on a run that trains all twelve members, saves them into an empty
  directory and loads them back. \<^verbatim>\<open>train_all\<close> names the ten tabular members
  after their builder functions (\<open>shallow_wide\<close>, ...), \<^verbatim>\<open>save_all\<close> writes
  them under those names, and \<^verbatim>\<open>load_all\<close> looks for the names of
  \<^verbatim>\<open>ALL_MODEL_NAMES\<close> (\<open>ShallowWide\<close>, ...): the reloaded roster holds the
  embedding and the fusion member only, next to the twelve saved scores.
\<close>

theorem save_load_drops_tabular_members:
  "\<exists>st. train_all example_trainer init example_features example_features
           (Some example_features) (Some example_features)
           (Some example_bert) (Some example_bert) = Inr st \<and>
        model_names st =
          [''shallow_wide'', ''deep_narrow'', ''pyramid_bn'', ''diamond_selu'',
           ''residual_block'', ''swish_layernorm'', ''mixed_activation'',
           ''heavy_regularization'', ''attention_net'', ''very_deep'',
           ''EmbeddingNet'', ''BERTFusion''] \<and>
        model_names (load_all init (save_all st empty_directory)) =
          [''EmbeddingNet'', ''BERTFusion''] \<and>
        length (individual_aucs (load_all init (save_all st empty_directory))) = 12"
proof -
  obtain cols where cols: "split_for_embedding example_features = Inr cols"
    using split_example by blast
  let ?t = "train_tabular example_trainer example_features example_features
              TABULAR_MODEL_BUILDERS init"
  let ?e = "append_member ?t (constant_model [0.6, 0.3, 0.1]) ''EmbeddingNet'' 0.9"
  let ?st = "append_member ?e (constant_model [0.6, 0.3, 0.1]) ''BERTFusion'' 0.9"
  have run: "train_all example_trainer init example_features example_features
           (Some example_features) (Some example_features)
           (Some example_bert) (Some example_bert) = Inr ?st"
    by (simp add: train_all_def train_embedding_def train_fusion_def cols example_trainer_def)
  have names: "model_names ?st =
          [''shallow_wide'', ''deep_narrow'', ''pyramid_bn'', ''diamond_selu'',
           ''residual_block'', ''swish_layernorm'', ''mixed_activation'',
           ''heavy_regularization'', ''attention_net'', ''very_deep'',
           ''EmbeddingNet'', ''BERTFusion'']"
    by (simp add: append_member_def train_tabular_names replace_names init_def)
  have models: "trained_models ?st = replicate 12 (constant_model [0.6, 0.3, 0.1])"
    by (simp add: append_member_def train_tabular_models init_def example_trainer_def
        TABULAR_MODEL_BUILDERS_def numeral_eq_Suc)
  have aucs: "individual_aucs ?st = replicate 12 0.9"
    by (simp add: append_member_def train_tabular_aucs init_def example_trainer_def
        TABULAR_MODEL_BUILDERS_def numeral_eq_Suc)
  have loaded: "model_names (load_all init (save_all ?st empty_directory)) =
          [''EmbeddingNet'', ''BERTFusion'']"
    unfolding load_all_def save_all_def names models
    by (simp add: empty_directory_def numeral_eq_Suc ALL_MODEL_NAMES_def)
  have len: "length (individual_aucs (load_all init (save_all ?st empty_directory))) = 12"
    unfolding load_all_def save_all_def aucs by (simp add: Let_def)
  from run names loaded len show ?thesis by blast
qed

subsection \<open>C4: re-applying the fitted scaler\<close>

lemma fit_scaler_train:
  "fit scaler_train = Inr \<lparr>scaler_mean = [2, 10], scaler_scale = [1, 1]\<rparr>"
  by (simp add: fit_def scaler_train_def column_def Let_def upt_rec power2_eq_square)

lemma scale_features_example:
  "scale_features small_integer_cast None scaler_train scaler_val scaler_test =
     (Inr ([[- 1, 0], [1, 0]], [[0, 2]], [[3, - 1]]),
      Some \<lparr>scaler_mean = [2, 10], scaler_scale = [1, 1]\<rparr>)"
  by (simp add: scale_features_def fit_transform_def fit_scaler_train transform_def astype_def
      small_integer_cast_def)
     (simp add: scaler_train_def scaler_val_def scaler_test_def small_integer_cast_def)

text \<open>
  Claim C4 as stated fails: the fitted transform is not idempotent. With the scaler
  fitted by \<^verbatim>\<open>scale_features\<close> on a train matrix whose first column has mean 2 and
  deviation 1, \<^verbatim>\<open>scale_features\<close> returns \<open>[[0, 2]]\<close> for the validation matrix
  \<open>[[2, 12]]\<close>; transforming \<open>[[2, 12]]\<close> gives \<open>[[0, 2]]\<close> and transforming
  that result once more gives \<open>[[- 2, - 8]]\<close>.
\<close>

theorem transform_not_idempotent:
  "scale_features small_integer_cast None scaler_train scaler_val scaler_test =
     (Inr ([[- 1, 0], [1, 0]], [[0, 2]], [[3, - 1]]),
      Some \<lparr>scaler_mean = [2, 10], scaler_scale = [1, 1]\<rparr>) \<and>
   transform (Some \<lparr>scaler_mean = [2, 10], scaler_scale = [1, 1]\<rparr>) scaler_val = Inr [[0, 2]] \<and>
   transform (Some \<lparr>scaler_mean = [2, 10], scaler_scale = [1, 1]\<rparr>) [[0, 2]] = Inr [[- 2, - 8]]"
proof -
  have "transform (Some \<lparr>scaler_mean = [2, 10], scaler_scale = [1, 1]\<rparr>) scaler_val = Inr [[0, 2]]"
    by (simp add: transform_def scaler_val_def)
  moreover have "transform (Some \<lparr>scaler_mean = [2, 10], scaler_scale = [1, 1]\<rparr>) [[0, 2]]
      = Inr [[- 2, - 8]]"
    by (simp add: transform_def)
  ultimately show ?thesis using scale_features_example by simp
qed

text \<open>
  Claim C4, amended. Whenever \<^verbatim>\<open>scale_features\<close> returns, whatever the rounding
  of the cast to float32 is, the scaler it leaves behind is the one fitted on the train
  matrix alone (the state of the scaler before the call, the validation matrix and the
  test matrix have no part in it), and applying that fitted scaler again to the same
  unscaled train, validation or test matrix, followed by the same cast, gives the matrix
  that \<^verbatim>\<open>scale_features\<close> returned for it.
\<close>

theorem scale_features_reapply:
  assumes "scale_features float32 scaler X_train X_val X_test = (Inr (tr, va, te), scaler')"
  shows "(\<exists>p. fit X_train = Inr p \<and> scaler' = Some p) \<and>
         (\<forall>scaler0 X_val0 X_test0.
            snd (scale_features float32 scaler0 X_train X_val0 X_test0) = scaler') \<and>
         map_sum id (astype float32) (transform scaler' X_train) = Inr tr \<and>
         map_sum id (astype float32) (transform scaler' X_val) = Inr va \<and>
         map_sum id (astype float32) (transform scaler' X_test) = Inr te"
proof -
  from assms obtain p a where
    p: "fit X_train = Inr p" "scaler' = Some p" and a: "transform (Some p) X_train = Inr a"
    by (auto simp: scale_features_def fit_transform_def Let_def split: sum.splits prod.splits)
  have "snd (scale_features float32 scaler0 X_train X_val0 X_test0) = scaler'"
    for scaler0 X_val0 X_test0
    by (simp add: scale_features_def fit_transform_def p a Let_def split: sum.splits)
  moreover have "map_sum id (astype float32) (transform scaler' X_train) = Inr tr \<and>
         map_sum id (astype float32) (transform scaler' X_val) = Inr va \<and>
         map_sum id (astype float32) (transform scaler' X_test) = Inr te"
    using assms
    by (auto simp: scale_features_def fit_transform_def Let_def split: sum.splits prod.splits)
  ultimately show ?thesis using p by blast
qed

theorem scale_features_reapply_witness:
  "scale_features small_integer_cast None scaler_train scaler_val scaler_test =
     (Inr ([[- 1, 0], [1, 0]], [[0, 2]], [[3, - 1]]),
      Some \<lparr>scaler_mean = [2, 10], scaler_scale = [1, 1]\<rparr>) \<and>
   map_sum id (astype small_integer_cast)
     (transform (Some \<lparr>scaler_mean = [2, 10], scaler_scale = [1, 1]\<rparr>) scaler_val) = Inr [[0, 2]]"
  using scale_features_reapply[OF scale_features_example] scale_features_example by simp

subsection \<open>C8: stratified_split is determined by the data, the fractions and the seed\<close>

lemma train_test_split_seeded:
  "train_test_split lib df ts y (Some seed) g =
     ((case RandomState lib seed of
         Inl e \<Rightarrow> Inl e
       | Inr rng \<Rightarrow> select_rows df (fst (shuffle_split lib rng (length (index df)) ts y))),
      g)"
  by (simp add: train_test_split_def split: sum.splits)

text \<open>
  Claim C8. \<^verbatim>\<open>stratified_split\<close> hands its seed to both calls of
  \<^verbatim>\<open>train_test_split\<close>, so what it returns (the three partitions, or the error)
  does not depend on the state of the process-wide random generator, and the call leaves
  that generator as it found it: two calls with the same frame, the same fractions and the
  same seed return the same partitions.
\<close>

theorem stratified_split_deterministic:
  "fst (stratified_split lib df_encoded test_size val_size seed g) =
     fst (stratified_split lib df_encoded test_size val_size seed h) \<and>
   snd (stratified_split lib df_encoded test_size val_size seed g) = g"
  by (simp add: stratified_split_def train_test_split_seeded Let_def
      split: sum.splits prod.splits)


subsection \<open>C9: the partitions are disjoint and exhaustive\<close>

lemma records_take_rows: "records (take_rows df positions) = map (row_at df) positions"
proof -
  have "row_at (take_rows df positions) k = row_at df (positions ! k)"
    if "k < length positions" for k
    using that by (simp add: row_at_def take_rows_def split_def o_def)
  then have "map (row_at (take_rows df positions)) [0..<length positions] =
             map (\<lambda>k. row_at df (positions ! k)) [0..<length positions]"
    by simp
  also have "\<dots> = map (row_at df) (map (nth positions) [0..<length positions])"
    by (simp add: o_def)
  also have "\<dots> = map (row_at df) positions"
    by (simp add: map_nth)
  finally show ?thesis by (simp add: records_def take_rows_def)
qed

lemma mset_records_split:
  assumes "mset (tr @ te) = mset [0..<length (index df)]"
  shows "mset (records (take_rows df tr)) + mset (records (take_rows df te)) = mset (records df)"
proof -
  have "mset (records (take_rows df tr)) + mset (records (take_rows df te)) =
        image_mset (row_at df) (mset (tr @ te))"
    by (simp add: records_take_rows)
  also have "\<dots> = image_mset (row_at df) (mset [0..<length (index df)])"
    using assms by simp
  also have "\<dots> = mset (records df)"
    by (simp add: records_def)
  finally show ?thesis .
qed

lemma train_test_split_partition:
  assumes "splits_positions lib"
      and "train_test_split lib df ts y (Some seed) g = (Inr (a, b), g')"
  shows "mset (records a) + mset (records b) = mset (records df)"
proof -
  from assms(2) obtain rng tr te where
    draw: "fst (shuffle_split lib rng (length (index df)) ts y) = Inr (tr, te)" and
    a: "a = take_rows df tr" and b: "b = take_rows df te"
    by (auto simp: train_test_split_seeded select_rows_def split: sum.splits prod.splits)
  from draw obtain rng' where
    "shuffle_split lib rng (length (index df)) ts y = (Inr (tr, te), rng')"
    by (cases "shuffle_split lib rng (length (index df)) ts y") auto
  with assms(1) have "mset (tr @ te) = mset [0..<length (index df)]"
    unfolding splits_positions_def by blast
  then show ?thesis unfolding a b by (rule mset_records_split)
qed

lemma distinct_records: "distinct (index df) \<Longrightarrow> distinct (records df)"
proof -
  assume d: "distinct (index df)"
  have "map fst (records df) = map (nth (index df)) [0..<length (index df)]"
    by (simp add: records_def row_at_def o_def)
  then have "map fst (records df) = index df" by (simp add: map_nth)
  with d have "distinct (map fst (records df))" by simp
  then show ?thesis by (rule distinct_map[THEN iffD1, THEN conjunct1])
qed

text \<open>
  Claim C9. Given that each draw of scikit-learn's splitter returns every position once,
  the three partitions that \<^verbatim>\<open>stratified_split\<close> returns hold together exactly the
  records of the source frame, each record in exactly one partition: as multisets of
  records the partitions add up to the source, their union is the set of source records,
  and when the row labels of the source are distinct the partitions are pairwise disjoint.
\<close>

theorem stratified_split_partition:
  assumes lib: "splits_positions lib"
      and run: "stratified_split lib df_encoded test_size val_size seed g =
                  (Inr (train_df, val_df, test_df), g')"
  shows "mset (records train_df) + mset (records val_df) + mset (records test_df) =
           mset (records df_encoded) \<and>
         set (records train_df) \<union> set (records val_df) \<union> set (records test_df) =
           set (records df_encoded) \<and>
         (distinct (index df_encoded) \<longrightarrow>
            set (records train_df) \<inter> set (records val_df) = {} \<and>
            set (records train_df) \<inter> set (records test_df) = {} \<and>
            set (records val_df) \<inter> set (records test_df) = {})"
proof -
  from run obtain y train_val_df g1 y2 rel where
    first: "train_test_split lib df_encoded test_size y (Some seed) g =
              (Inr (train_val_df, test_df), g1)" and
    second: "train_test_split lib train_val_df rel y2 (Some seed) g1 =
              (Inr (train_df, val_df), g')"
    by (auto simp: stratified_split_def Let_def split: sum.splits prod.splits if_splits)
  have m1: "mset (records train_val_df) + mset (records test_df) = mset (records df_encoded)"
    using train_test_split_partition[OF lib first] .
  have m2: "mset (records train_df) + mset (records val_df) = mset (records train_val_df)"
    using train_test_split_partition[OF lib second] .
  have all: "mset (records train_df @ records val_df @ records test_df) =
             mset (records df_encoded)"
    using m1 m2 by (simp add: ac_simps)
  have sets: "set (records train_df) \<union> set (records val_df) \<union> set (records test_df) =
           set (records df_encoded)"
    using mset_eq_setD[OF all] by auto
  have disj: "set (records train_df) \<inter> set (records val_df) = {} \<and>
            set (records train_df) \<inter> set (records test_df) = {} \<and>
            set (records val_df) \<inter> set (records test_df) = {}"
    if "distinct (index df_encoded)"
  proof -
    have "distinct (records train_df @ records val_df @ records test_df)"
      using mset_eq_imp_distinct_iff[OF all] distinct_records[OF that] by simp
    then show ?thesis by auto
  qed
  from all sets disj show ?thesis by (simp add: ac_simps)
qed


lemma splits_positions_tail_split: "splits_positions tail_split"
proof -
  have "mset ([0..<n - k] @ [n - k..<n]) = mset [0..<n]" if "k < n" for n k :: nat
  proof -
    have "[0..<n - k] @ [n - k..<n] = [0..<n]"
      using that upt_add_eq_append[of 0 "n - k" k] by simp
    then show ?thesis by simp
  qed
  then show ?thesis
    unfolding splits_positions_def tail_split_def
    by (auto simp: Let_def not_le split: if_splits)
qed

lemma stratified_split_four_records:
  "stratified_split tail_split four_records (1 / 4) (1 / 4) 42 0 =
     (Inr (take_rows four_records [0, 1], take_rows four_records [2],
           take_rows four_records [3]), 0)"
proof -
  have first: "train_test_split tail_split four_records (1 / 4) y (Some 42) 0 =
      (Inr (take_rows four_records [0, 1, 2], take_rows four_records [3]), 0)" for y
    by (simp add: train_test_split_seeded tail_split_def four_records_def select_rows_def
        Let_def upt_rec eval_nat_numeral)
  have second: "train_test_split tail_split (take_rows four_records [0, 1, 2])
        (1 / 4 / (1 - 1 / 4)) y
        (Some 42) 0 =
      (Inr (take_rows four_records [0, 1], take_rows four_records [2]), 0)" for y
    by (simp add: train_test_split_seeded tail_split_def four_records_def select_rows_def
        take_rows_def Let_def upt_rec eval_nat_numeral)
  have y1: "get_col four_records TARGET_COLUMN = Inr [Num 2, Num 0, Num 2, Num 0]"
    by (simp add: get_col_def four_records_def TARGET_COLUMN_def)
  have y2: "get_col (take_rows four_records [0, 1, 2]) TARGET_COLUMN = Inr [Num 2, Num 0, Num 2]"
    by (simp add: get_col_def four_records_def TARGET_COLUMN_def take_rows_def)
  have ne: "((1::real) - 1 / 4 = 0) = False" by simp
  show ?thesis
    unfolding stratified_split_def
    by (simp only: y1 first y2 second ne sum.case prod.case if_False Let_def)
qed

theorem stratified_split_partition_witness:
  "splits_positions tail_split \<and>
   stratified_split tail_split four_records (1 / 4) (1 / 4) 42 0 =
     (Inr (take_rows four_records [0, 1], take_rows four_records [2],
           take_rows four_records [3]), 0) \<and>
   distinct (index four_records) \<and>
   mset (records (take_rows four_records [0, 1])) + mset (records (take_rows four_records [2]))
     + mset (records (take_rows four_records [3])) = mset (records four_records) \<and>
   set (records (take_rows four_records [0, 1])) \<inter> set (records (take_rows four_records [2])) = {} \<and>
   set (records (take_rows four_records [0, 1])) \<inter> set (records (take_rows four_records [3])) = {} \<and>
   set (records (take_rows four_records [2])) \<inter> set (records (take_rows four_records [3])) = {}"
proof -
  have d: "distinct (index four_records)" by (simp add: four_records_def)
  show ?thesis
    using stratified_split_partition[OF splits_positions_tail_split stratified_split_four_records]
      splits_positions_tail_split stratified_split_four_records d
    by simp
qed

subsection \<open>Sums of stacked predictions\<close>

lemma same_shape_Cons:
  "same_shape (p # ps) = (\<forall>q \<in> set ps. map length q = map length p)"
  by (simp add: same_shape_def list_all_iff)

lemma same_shape_tail:
  "same_shape (p # q # ps) \<Longrightarrow> same_shape (q # ps) \<and> map length q = map length p"
  by (simp add: same_shape_Cons)

lemma shape_madd:
  "map length a = map length b \<Longrightarrow> map length (madd a b) = map length a"
proof (induction a arbitrary: b)
  case Nil
  then show ?case by (simp add: madd_def)
next
  case (Cons x a)
  then obtain y b' where b: "b = y # b'" by (cases b) auto
  with Cons have "map length (madd a b') = map length a" by simp
  with Cons.prems b show ?case by (simp add: madd_def)
qed


lemma shape_msum: "same_shape (p # ps) \<Longrightarrow> map length (msum (p # ps)) = map length p"
proof (induction ps arbitrary: p)
  case Nil
  then show ?case by simp
next
  case (Cons q ps)
  from same_shape_tail[OF Cons.prems] have t: "same_shape (q # ps)" and e: "map length q = map length p"
    by simp_all
  from Cons.IH[OF t] e have "map length p = map length (msum (q # ps))" by simp
  then show ?case by (simp add: shape_madd)
qed



lemma sum_list_div: "(\<Sum>x\<leftarrow>xs. f x / (d::real)) = (\<Sum>x\<leftarrow>xs. f x) / d"
  by (induction xs) (simp_all add: add_divide_distrib)










subsection \<open>C1: the weighted ensemble is the AUC-weighted average\<close>





lemma train_all_aligned:
  assumes "train_all fit_and_score init X_train X_val X_train_raw X_val_raw bert_train bert_val
             = Inr self"
  shows "length (trained_models self) = length (model_names self) \<and>
         length (individual_aucs self) = length (model_names self) \<and>
         model_names self \<noteq> []"
proof -
  let ?t = "train_tabular fit_and_score X_train X_val TABULAR_MODEL_BUILDERS init"
  have t: "length (trained_models ?t) = length (model_names ?t)"
      "length (individual_aucs ?t) = length (model_names ?t)" "model_names ?t \<noteq> []"
    by (simp_all add: train_tabular_names train_tabular_aucs train_tabular_models init_def)
       (simp add: TABULAR_MODEL_BUILDERS_def)
  from assms obtain e where
    e: "train_embedding fit_and_score X_train_raw X_val_raw ?t = Inr e" and
    self: "self = train_fusion fit_and_score X_train X_val bert_train bert_val e"
    by (auto simp: train_all_def split: sum.splits)
  from e t have "length (trained_models e) = length (model_names e) \<and>
         length (individual_aucs e) = length (model_names e) \<and> model_names e \<noteq> []"
    by (auto simp: train_embedding_def append_member_def Let_def
        split: sum.splits option.splits prod.splits)
  then show ?thesis unfolding self
    by (auto simp: train_fusion_def append_member_def Let_def
        split: option.splits prod.splits)
qed


lemma collect_two_members:
  "collect_predictions two_members X None None = Inr [[[0.6, 0.3, 0.1]], [[0.2, 0.5, 0.3]]]"
  by (simp add: collect_predictions_def two_members_def constant_model_def)






subsection \<open>C5: equal weights\<close>

lemma map2_add_scale:
  "map2 (+) (map ((*) w) x) (map ((*) w) y) = map ((*) (w::real)) (map2 (+) x y)"
proof (induction x arbitrary: y)
  case Nil
  then show ?case by simp
next
  case (Cons a x)
  then show ?case by (cases y) (simp_all add: distrib_left)
qed

lemma madd_mscale: "madd (mscale w a) (mscale w b) = mscale w (madd a b)"
proof (induction a arbitrary: b)
  case Nil
  then show ?case by (simp add: madd_def mscale_def)
next
  case (Cons x a)
  show ?case
  proof (cases b)
    case Nil
    then show ?thesis by (simp add: madd_def mscale_def)
  next
    case (Cons y b')
    with Cons.IH[of b'] show ?thesis
      by (simp add: madd_def mscale_def map2_add_scale)
  qed
qed

lemma msum_mscale: "msum (map (mscale w) ps) = mscale w (msum ps)"
  by (induction ps rule: msum.induct) (simp_all add: madd_mscale, simp add: mscale_def)

lemma map2_mscale_replicate:
  "map2 mscale (replicate (length ps) w) ps = map (mscale w) ps"
  by (induction ps) simp_all

lemma mdiv_mscale: "n \<noteq> 0 \<Longrightarrow> mdiv (mscale (1 / n) a) 1 = mdiv a n"
  by (simp add: mdiv_def mscale_def)

lemma np_average_equal_weights:
  assumes "ps \<noteq> []" "k \<noteq> 0"
  shows "np_average ps (np_divide (replicate (length ps) k) (sum_list (replicate (length ps) k)))
           = np_mean ps"
proof -
  let ?n = "real (length ps)"
  have n: "?n \<noteq> 0" using assms(1) by simp
  have s: "sum_list (replicate (length ps) k) = ?n * k"
    by (simp add: sum_list_replicate)
  have d: "np_divide (replicate (length ps) k) (?n * k) = replicate (length ps) (Some (1 / ?n))"
    using n assms(2) by (simp add: np_divide_def)
  have w: "map the (replicate (length ps) (Some (1 / ?n))) = replicate (length ps) (1 / ?n)"
    by simp
  have scl: "sum_list (replicate (length ps) (1 / ?n)) = 1"
    using n by (simp add: sum_list_replicate)
  show ?thesis
    unfolding s d np_average_def np_mean_def w Let_def scl
    using assms(1) n
    by (simp add: map2_mscale_replicate msum_mscale mdiv_mscale)
qed

lemma all_equal_replicate: "\<forall>w \<in> set xs. w = k \<Longrightarrow> xs = replicate (length xs) k"
  by (induction xs) simp_all

text \<open>
  Claim C5 as stated fails. When the equal stored weights are all zero, the weights
  divided by their sum are not numbers and the weighted ensemble is NaN, while the
  unweighted mean is an ordinary array; and on the empty roster the weighted ensemble
  raises ZeroDivisionError, while the mean is NaN.
\<close>

theorem equal_zero_weights_differ:
  "predict_weighted_ensemble zero_weight_members example_features None None = Inr NotANumber \<and>
   predict_ensemble zero_weight_members example_features None None = Inr (Array [[0.4, 0.4, 0.2]]) \<and>
   predict_weighted_ensemble init example_features None None = Inl ZeroDivisionError \<and>
   predict_ensemble init example_features None None = Inr NotANumber"
proof -
  have c: "collect_predictions zero_weight_members example_features None None =
      Inr [[[0.6, 0.3, 0.1]], [[0.2, 0.5, 0.3]]]"
    by (simp add: collect_predictions_def zero_weight_members_def constant_model_def)
  have sh: "same_shape [[[a, b, c]], [[d, e, f]]]" for a b c d e f :: real
    by (simp add: same_shape_def)
  have e: "collect_predictions init example_features None None = Inr []"
    by (simp add: collect_predictions_def init_def)
  have a: "individual_aucs zero_weight_members = [0, 0]"
    by (simp add: zero_weight_members_def)
  have "predict_weighted_ensemble zero_weight_members example_features None None = Inr NotANumber"
    by (simp add: predict_weighted_ensemble_def c a np_average_def sh np_divide_def Let_def)
  moreover have "predict_ensemble zero_weight_members example_features None None =
      Inr (Array [[0.4, 0.4, 0.2]])"
    by (simp add: predict_ensemble_def c np_mean_def sh mdiv_def madd_def)
  moreover have "predict_weighted_ensemble init example_features None None = Inl ZeroDivisionError"
    by (simp add: predict_weighted_ensemble_def e np_average_def np_divide_def same_shape_def)
  moreover have "predict_ensemble init example_features None None = Inr NotANumber"
    by (simp add: predict_ensemble_def e np_mean_def)
  ultimately show ?thesis by simp
qed

text \<open>
  Claim C5, amended. When at least one prediction is collected, each collected prediction
  has a stored weight, and all stored weights are equal to one value other than zero,
  \<^verbatim>\<open>predict_weighted_ensemble\<close> returns what \<^verbatim>\<open>predict_ensemble\<close> returns
  (also when both raise, for predictions of different shapes).
\<close>

theorem equal_weights_weighted_is_mean:
  assumes collected: "collect_predictions self X X_raw bert_embeddings = Inr all_probs"
      and nonempty: "all_probs \<noteq> []"
      and stored: "length all_probs \<le> length (individual_aucs self)"
      and equal: "\<forall>w \<in> set (individual_aucs self). w = k"
      and nonzero: "k \<noteq> 0"
  shows "predict_weighted_ensemble self X X_raw bert_embeddings =
         predict_ensemble self X X_raw bert_embeddings"
proof -
  have "\<forall>w \<in> set (take (length all_probs) (individual_aucs self)). w = k"
    using equal by (meson in_set_takeD)
  from all_equal_replicate[OF this] stored
  have w: "take (length all_probs) (individual_aucs self) = replicate (length all_probs) k"
    by simp
  show ?thesis
    using np_average_equal_weights[OF nonempty nonzero]
    by (simp add: predict_weighted_ensemble_def predict_ensemble_def collected w Let_def)
qed


theorem equal_weights_weighted_is_mean_witness:
  "predict_weighted_ensemble equal_weight_members example_features None None =
     Inr (Array [[0.4, 0.4, 0.2]]) \<and>
   predict_ensemble equal_weight_members example_features None None =
     Inr (Array [[0.4, 0.4, 0.2]])"
proof -
  have c: "collect_predictions equal_weight_members example_features None None =
      Inr [[[0.6, 0.3, 0.1]], [[0.2, 0.5, 0.3]]]"
    by (simp add: collect_predictions_def equal_weight_members_def constant_model_def)
  have sh: "same_shape [[[a, b, c]], [[d, e, f]]]" for a b c d e f :: real
    by (simp add: same_shape_def)
  have m: "predict_ensemble equal_weight_members example_features None None =
      Inr (Array [[0.4, 0.4, 0.2]])"
    by (simp add: predict_ensemble_def c np_mean_def sh mdiv_def madd_def)
  have "predict_weighted_ensemble equal_weight_members example_features None None =
        predict_ensemble equal_weight_members example_features None None"
    by (rule equal_weights_weighted_is_mean[OF c, of "0.8"])
       (simp_all add: equal_weight_members_def)
  with m show ?thesis by simp
qed

subsection \<open>C6: the rows of the unweighted ensemble sum to one\<close>

lemma sum_list_map2_add:
  "length x = length y \<Longrightarrow> sum_list (map2 (+) x y) = sum_list x + sum_list (y :: real list)"
proof (induction x arbitrary: y)
  case Nil
  then show ?case by simp
next
  case (Cons a x)
  then show ?case by (cases y) simp_all
qed

lemma madd_row:
  "r < length a \<Longrightarrow> r < length b \<Longrightarrow> madd a b ! r = map2 (+) (a ! r) (b ! r)"
  by (simp add: madd_def)

lemma msum_row_sum:
  "same_shape (p # ps) \<Longrightarrow> r < length p \<Longrightarrow>
   sum_list (msum (p # ps) ! r) = (\<Sum>q\<leftarrow>p # ps. sum_list (q ! r))"
proof (induction ps arbitrary: p)
  case Nil
  then show ?case by simp
next
  case (Cons q ps)
  from same_shape_tail[OF Cons.prems(1)] have t: "same_shape (q # ps)"
    and e: "map length q = map length p" by simp_all
  have lq: "length q = length p" using e by (metis length_map)
  have sh: "map length (msum (q # ps)) = map length p"
    using shape_msum[OF t] e by simp
  then have lm: "length (msum (q # ps)) = length p" by (metis length_map)
  have lr: "length (msum (q # ps) ! r) = length (p ! r)"
    using sh lm Cons.prems(2) by (metis nth_map)
  have ih: "sum_list (msum (q # ps) ! r) = (\<Sum>q'\<leftarrow>q # ps. sum_list (q' ! r))"
    using Cons.IH[OF t] Cons.prems(2) lq by simp
  have "sum_list (msum (p # q # ps) ! r) = sum_list (p ! r) + sum_list (msum (q # ps) ! r)"
    using Cons.prems(2) lm lr by (simp add: madd_row sum_list_map2_add)
  with ih show ?case by simp
qed

text \<open>
  Claim C6 as stated fails: a roster that is not empty can still contribute nothing. The
  roster holding only the embedding member, asked without the raw matrix, skips its one
  member, and the mean over no prediction is NaN, not an array of rows summing to one.
\<close>

theorem embedding_only_mean_is_nan:
  "model_names embedding_only = [''EmbeddingNet''] \<and>
   hd (trained_models embedding_only) (Embedded []) = [[0.1, 0.1, 0.8]] \<and>
   sum_list [0.1, 0.1, 0.8 :: real] = 1 \<and>
   predict_ensemble embedding_only example_features None None = Inr NotANumber"
  by (simp add: embedding_only_def constant_model_def predict_ensemble_def
      collect_predictions_def np_mean_def)

text \<open>
  Claim C6, amended. When at least one member's prediction is collected and every
  collected prediction has \<open>n\<close> rows, each a distribution over the three classes
  (three entries summing to one), \<^verbatim>\<open>predict_ensemble\<close> returns an array of \<open>n\<close>
  rows, each with three entries summing to one.
\<close>

theorem predict_ensemble_rows_sum_to_one:
  assumes collected: "collect_predictions self X X_raw bert_embeddings = Inr all_probs"
      and nonempty: "all_probs \<noteq> []"
      and dist: "\<forall>p \<in> set all_probs. length p = n \<and>
                   (\<forall>row \<in> set p. length row = NUM_CLASSES \<and> sum_list row = 1)"
  shows "\<exists>avg. predict_ensemble self X X_raw bert_embeddings = Inr (Array avg) \<and>
               length avg = n \<and>
               (\<forall>row \<in> set avg. length row = NUM_CLASSES \<and> sum_list row = 1)"
proof -
  obtain p ps where ps: "all_probs = p # ps" using nonempty by (cases all_probs) auto
  have shape: "map length q = replicate n NUM_CLASSES" if "q \<in> set all_probs" for q
    using dist that by (intro replicate_eqI) auto
  have sh: "same_shape (p # ps)"
    using shape unfolding ps same_shape_Cons by simp
  let ?N = "real (length all_probs)"
  let ?avg = "mdiv (msum all_probs) ?N"
  have N: "?N \<noteq> 0" using nonempty by simp
  have run: "predict_ensemble self X X_raw bert_embeddings = Inr (Array ?avg)"
    using sh nonempty by (simp add: predict_ensemble_def collected np_mean_def ps)
  have shm: "map length (msum all_probs) = replicate n NUM_CLASSES"
    using shape_msum[OF sh] shape[of p] by (simp add: ps)
  then have lm: "length (msum all_probs) = n" by (metis length_map length_replicate)
  have len: "length ?avg = n" using lm by (simp add: mdiv_def)
  have rows: "length row = NUM_CLASSES \<and> sum_list row = 1" if "row \<in> set ?avg" for row
  proof -
    from that obtain r where r: "r < n" and row: "row = map (\<lambda>x. x / ?N) (msum all_probs ! r)"
      using lm by (auto simp: mdiv_def in_set_conv_nth)
    have l: "length (msum all_probs ! r) = NUM_CLASSES"
      using shm r lm by (metis nth_map nth_replicate)
    have rp: "r < length p" using dist r by (simp add: ps)
    have "sum_list (msum all_probs ! r) = (\<Sum>q\<leftarrow>all_probs. sum_list (q ! r))"
      using msum_row_sum[OF sh rp] by (simp add: ps)
    also have "\<dots> = (\<Sum>q\<leftarrow>all_probs. 1)"
    proof (rule arg_cong[where f = sum_list], rule map_cong[OF refl])
      fix q assume q: "q \<in> set all_probs"
      with dist r have "q ! r \<in> set q" by simp
      with dist q show "sum_list (q ! r) = 1" by blast
    qed
    also have "\<dots> = ?N" by (simp add: sum_list_triv)
    finally have "sum_list row = 1"
      using N by (simp add: row sum_list_div)
    with l show ?thesis by (simp add: row)
  qed
  from run len rows show ?thesis by blast
qed


theorem predict_ensemble_rows_sum_to_one_witness:
  "predict_ensemble two_members example_features None None = Inr (Array [[0.4, 0.4, 0.2]]) \<and>
   length [0.4, 0.4, 0.2 :: real] = NUM_CLASSES \<and> sum_list [0.4, 0.4, 0.2 :: real] = 1"
proof -
  have sh: "same_shape [[[a, b, c]], [[d, e, f]]]" for a b c d e f :: real
    by (simp add: same_shape_def)
  have m: "predict_ensemble two_members example_features None None =
      Inr (Array [[0.4, 0.4, 0.2]])"
    by (simp add: predict_ensemble_def collect_two_members np_mean_def sh mdiv_def madd_def)
  have dist: "\<forall>p \<in> set [[[0.6, 0.3, 0.1]], [[0.2, 0.5, 0.3 :: real]]]. length p = 1 \<and>
                   (\<forall>row \<in> set p. length row = NUM_CLASSES \<and> sum_list row = 1)"
    by (simp add: NUM_CLASSES_def)
  from predict_ensemble_rows_sum_to_one[OF collect_two_members _ dist]
  obtain avg where
    "predict_ensemble two_members example_features None None = Inr (Array avg)"
    "\<forall>row \<in> set avg. length row = NUM_CLASSES \<and> sum_list row = 1"
    by auto
  with m show ?thesis by auto
qed

subsection \<open>C3: a member whose input is omitted at prediction time\<close>

lemma collect_skip_embedding:
  "collect l X None bert = collect (filter (\<lambda>(model, n). n \<noteq> ''EmbeddingNet'') l) X None bert"
  by (induction l) (auto split: option.splits sum.splits)

lemma collect_skip_fusion:
  "collect l X X_raw None = collect (filter (\<lambda>(model, n). n \<noteq> ''BERTFusion'') l) X X_raw None"
  by (induction l) (auto split: option.splits sum.splits)

lemma collect_no_raw_returns: "\<exists>all_probs. collect l X None bert = Inr all_probs"
  by (induction l) (auto split: option.splits sum.splits)

text \<open>
  Claim C3 as stated fails: a prediction call that leaves out the raw matrix of a roster
  holding the embedding member raises nothing. Both ensemble predictions return the
  result computed from the remaining member.
\<close>

theorem omitted_input_gives_result:
  "predict_ensemble tabular_and_embedding example_features None None =
     Inr (Array [[0.6, 0.3, 0.1]]) \<and>
   predict_weighted_ensemble tabular_and_embedding example_features None None =
     Inr (Array [[0.6, 0.3, 0.1]])"
proof -
  have c: "collect_predictions tabular_and_embedding example_features None None =
      Inr [[[0.6, 0.3, 0.1]]]"
    by (simp add: collect_predictions_def tabular_and_embedding_def constant_model_def)
  have a: "individual_aucs tabular_and_embedding = [0.9, 0.8]"
    by (simp add: tabular_and_embedding_def)
  have sh: "same_shape [[[a, b, c]]]" for a b c :: real
    by (simp add: same_shape_def)
  have "predict_ensemble tabular_and_embedding example_features None None =
     Inr (Array [[0.6, 0.3, 0.1]])"
    by (simp add: predict_ensemble_def c np_mean_def sh mdiv_def)
  moreover have "predict_weighted_ensemble tabular_and_embedding example_features None None =
     Inr (Array [[0.6, 0.3, 0.1]])"
    by (simp add: predict_weighted_ensemble_def c a np_average_def sh np_divide_def Let_def
        mdiv_def mscale_def)
  ultimately show ?thesis by simp
qed

text \<open>
  Claim C3, amended. A prediction call that omits the raw-integer matrix (resp. the
  auxiliary embeddings) skips the EmbeddingNet (resp. BERTFusion) member:
  \<^verbatim>\<open>_collect_predictions\<close> and \<^verbatim>\<open>predict_ensemble\<close> return what they return on
  any roster whose members are the remaining ones, in the same order, and collecting
  without the raw matrix never raises. Nothing is said here of
  \<^verbatim>\<open>predict_weighted_ensemble\<close> and \<^verbatim>\<open>evaluate_auc\<close>, which after a skip pair
  the remaining predictions with the stored scores and names by position.
\<close>

theorem omitted_input_skips_member:
  assumes no_embedding:
      "zip (trained_models no_embedding) (model_names no_embedding) =
         filter (\<lambda>(model, name). name \<noteq> ''EmbeddingNet'')
           (zip (trained_models self) (model_names self))"
    and no_fusion:
      "zip (trained_models no_fusion) (model_names no_fusion) =
         filter (\<lambda>(model, name). name \<noteq> ''BERTFusion'')
           (zip (trained_models self) (model_names self))"
  shows "collect_predictions self X None bert_embeddings =
           collect_predictions no_embedding X None bert_embeddings \<and>
         collect_predictions self X X_raw None =
           collect_predictions no_fusion X X_raw None \<and>
         predict_ensemble self X None bert_embeddings =
           predict_ensemble no_embedding X None bert_embeddings \<and>
         predict_ensemble self X X_raw None =
           predict_ensemble no_fusion X X_raw None \<and>
         (\<exists>all_probs. collect_predictions self X None bert_embeddings = Inr all_probs)"
proof -
  have e: "collect_predictions self X None bert_embeddings =
     collect_predictions no_embedding X None bert_embeddings"
    unfolding collect_predictions_def no_embedding by (rule collect_skip_embedding)
  have f: "collect_predictions self X X_raw None =
     collect_predictions no_fusion X X_raw None"
    unfolding collect_predictions_def no_fusion by (rule collect_skip_fusion)
  have r: "\<exists>all_probs. collect_predictions self X None bert_embeddings = Inr all_probs"
    unfolding collect_predictions_def by (rule collect_no_raw_returns)
  from e f r show ?thesis by (simp add: predict_ensemble_def)
qed

theorem omitted_input_skips_member_witness:
  "collect_predictions tabular_and_embedding example_features None None =
     Inr [[[0.6, 0.3, 0.1]]] \<and>
   collect_predictions tabular_only example_features None None = Inr [[[0.6, 0.3, 0.1]]] \<and>
   predict_ensemble tabular_and_embedding example_features None None =
     predict_ensemble tabular_only example_features None None"
proof -
  have c: "collect_predictions tabular_only example_features None None =
      Inr [[[0.6, 0.3, 0.1]]]"
    by (simp add: collect_predictions_def tabular_only_def constant_model_def)
  have e: "zip (trained_models tabular_only) (model_names tabular_only) =
         filter (\<lambda>(model, name). name \<noteq> ''EmbeddingNet'')
           (zip (trained_models tabular_and_embedding) (model_names tabular_and_embedding))"
    by (simp add: tabular_only_def tabular_and_embedding_def)
  have f: "zip (trained_models tabular_and_embedding) (model_names tabular_and_embedding) =
         filter (\<lambda>(model, name). name \<noteq> ''BERTFusion'')
           (zip (trained_models tabular_and_embedding) (model_names tabular_and_embedding))"
    by (simp add: tabular_and_embedding_def)
  from omitted_input_skips_member[OF e f, of example_features None None] c
  show ?thesis by simp
qed

end
